theory Spec2Isabelle
  imports Main "HOL-Library.AList"
begin

section \<open>Python values, exceptions and dictionaries\<close>

text \<open>
  The values stored in \<^verbatim>\<open>self._info\<close> are strings, booleans and \<^verbatim>\<open>None\<close>.
\<close>

datatype pyval = PyNone | PyBool bool | PyStr string

text \<open>
  Every exception that the modelled code can raise is a value. \<open>ModToolException\<close> is the
  class of the source; the others are the built-in exceptions of the interpreter
  (\<open>KeyError\<close> for a missing dictionary key, \<open>TypeError\<close> for \<^verbatim>\<open>None\<close> handed to a string
  operation, \<open>IOError\<close> for a file that cannot be opened, \<open>SystemExit\<close> for \<^verbatim>\<open>exit(1)\<close>).
\<close>

datatype error =
    ModToolException string
  | KeyError string
  | TypeError
  | IOError
  | SystemExit nat

definition thenE :: "error + 'a \<Rightarrow> ('a \<Rightarrow> error + 'b) \<Rightarrow> error + 'b" where
  "thenE m f = (case m of Inl e \<Rightarrow> Inl e | Inr x \<Rightarrow> f x)"

text \<open>
  A dictionary is an association list in insertion order: \<^verbatim>\<open>d[k] = v\<close> replaces the
  value of an existing key in place and appends a new key, \<^verbatim>\<open>d[k]\<close> raises
  \<open>KeyError\<close> on a missing key, and \<^verbatim>\<open>d.values()\<close> is true exactly when the dictionary
  has an entry.
\<close>

type_synonym 'v dict = "(string \<times> 'v) list"

definition dict_get :: "'v dict \<Rightarrow> string \<Rightarrow> error + 'v" where
  "dict_get d k = (case map_of d k of None \<Rightarrow> Inl (KeyError k) | Some v \<Rightarrow> Inr v)"

definition dict_set :: "string \<Rightarrow> 'v \<Rightarrow> 'v dict \<Rightarrow> 'v dict" where
  "dict_set k v d = AList.update k v d"

definition dict_keys :: "'v dict \<Rightarrow> string list" where
  "dict_keys d = map fst d"

definition dict_values :: "'v dict \<Rightarrow> 'v list" where
  "dict_values d = map snd d"

fun truthy :: "pyval \<Rightarrow> bool" where
  "truthy PyNone = False"
| "truthy (PyBool b) = b"
| "truthy (PyStr s) = (s \<noteq> [])"

section \<open>Library functions used by the module\<close>

text \<open>
  \<^verbatim>\<open>os.path.join\<close> of \<^verbatim>\<open>posixpath\<close>: a component that starts with the separator
  replaces what was joined so far; otherwise it is appended, with a separator unless the
  path so far is empty or already ends with one.
\<close>

definition path_join2 :: "string \<Rightarrow> string \<Rightarrow> string" where
  "path_join2 path b =
     (if b \<noteq> [] \<and> hd b = CHR ''/'' then b
      else if path = [] \<or> last path = CHR ''/'' then path @ b
      else path @ ''/'' @ b)"

definition path_join :: "string \<Rightarrow> string list \<Rightarrow> string" where
  "path_join a p = foldl path_join2 a p"

text \<open>
  \<^verbatim>\<open>re.search\<close> for the two patterns of the source, \<^verbatim>\<open>find_package\(Gnuradio\<close> and
  \<^verbatim>\<open>GR_REGISTER_COMPONENT\<close>: both match one literal text, so the search succeeds
  exactly when that text occurs somewhere in the subject.
\<close>

fun re_search :: "string \<Rightarrow> string \<Rightarrow> bool" where
  "re_search pat [] = (pat = [])"
| "re_search pat (c # cs) = (take (length pat) (c # cs) = pat \<or> re_search pat cs)"

section \<open>The environment, the arguments and the object\<close>

text \<open>
  What the module asks of the operating system and of its collaborators.
  \<open>listdir\<close> and \<open>chdir\<close> are \<^verbatim>\<open>os.listdir\<close> and \<^verbatim>\<open>os.chdir\<close> (\<open>None\<close> and
  \<open>False\<close> stand for \<open>OSError\<close>). \<open>isfile\<close>, \<open>isdir\<close> and \<open>read_text\<close> are
  \<^verbatim>\<open>os.path.isfile\<close>, \<^verbatim>\<open>os.path.isdir\<close> and \<^verbatim>\<open>open(f).read()\<close>, each on the path
  text that the code passes; the code calls them only after its single \<^verbatim>\<open>os.chdir\<close>, so
  they all answer for that one working directory. \<open>abspath\<close> is \<^verbatim>\<open>os.path.abspath\<close>.
  \<open>get_modname\<close> is the result of \<^verbatim>\<open>util_functions.get_modname()\<close> and \<open>scm_manager\<close>
  tells whether \<^verbatim>\<open>SCMRepoFactory\<close> yields a manager; both live in other files of the
  package and are taken as given.
\<close>

record env =
  listdir :: "string \<Rightarrow> string list option"
  chdir :: "string \<Rightarrow> bool"
  isfile :: "string \<Rightarrow> bool"
  isdir :: "string \<Rightarrow> bool"
  read_text :: "string \<Rightarrow> string option"
  abspath :: "string \<Rightarrow> string"
  get_modname :: "string option"
  scm_manager :: bool

text \<open>The parsed command line, one field per option of \<^verbatim>\<open>setup_parser\<close>
  (\<open>opt_module_name\<close> and \<open>opt_block_name\<close> are \<^verbatim>\<open>args.module_name\<close> and
  \<^verbatim>\<open>args.block_name\<close>, \<open>None\<close> by default).\<close>

record args =
  directory :: string
  opt_module_name :: "string option"
  opt_block_name :: "string option"
  skip_lib :: bool
  skip_swig :: bool
  skip_python :: bool
  skip_grc :: bool
  skip_examples :: bool
  skip_rfnoc :: bool
  scm_mode :: string
  yes :: bool

text \<open>The attributes of a \<^verbatim>\<open>ModTool\<close> object.\<close>

record modtool =
  self_dir :: "string option"
  self_has_subdirs :: "bool dict"
  self_skip_subdirs :: "bool dict"
  self_info :: "pyval dict"
  self_file :: "string dict"
  self_args :: "args option"

definition subdirs :: "string list" where
  "subdirs = [''lib'', ''include'', ''python'', ''swig'', ''grc'', ''examples'', ''rfnoc'']"

text \<open>\<^verbatim>\<open>ModTool.__init__\<close>\<close>

definition init :: modtool where
  "init = \<lparr> self_dir = None,
            self_has_subdirs = map (\<lambda>subdir. (subdir, False)) subdirs,
            self_skip_subdirs = map (\<lambda>subdir. (subdir, False)) subdirs,
            self_info = [],
            self_file = [],
            self_args = None \<rparr>"

definition set_info :: "string \<Rightarrow> pyval \<Rightarrow> modtool \<Rightarrow> modtool" where
  "set_info k v st = st\<lparr> self_info := dict_set k v (self_info st) \<rparr>"

definition set_file :: "string \<Rightarrow> string \<Rightarrow> modtool \<Rightarrow> modtool" where
  "set_file k v st = st\<lparr> self_file := dict_set k v (self_file st) \<rparr>"

definition set_has :: "string \<Rightarrow> bool \<Rightarrow> modtool \<Rightarrow> modtool" where
  "set_has k v st = st\<lparr> self_has_subdirs := dict_set k v (self_has_subdirs st) \<rparr>"

definition set_skip :: "string \<Rightarrow> bool \<Rightarrow> modtool \<Rightarrow> modtool" where
  "set_skip k v st = st\<lparr> self_skip_subdirs := dict_set k v (self_skip_subdirs st) \<rparr>"

text \<open>
  Reading an entry of \<^verbatim>\<open>self._info\<close> where the code needs a string (an operand of
  \<^verbatim>\<open>+\<close> or a component of \<^verbatim>\<open>os.path.join\<close>).
\<close>

definition info_str :: "modtool \<Rightarrow> string \<Rightarrow> error + string" where
  "info_str st k =
     thenE (dict_get (self_info st) k)
       (\<lambda>v. case v of PyStr s \<Rightarrow> Inr s | PyNone \<Rightarrow> Inl TypeError | PyBool b \<Rightarrow> Inl TypeError)"

section \<open>\<^verbatim>\<open>_get_mainswigfile\<close>\<close>

text \<open>
  The loop over the candidate names: the first one for which
  \<^verbatim>\<open>os.path.join(self._dir, 'swig', fname)\<close> is a regular file is returned, and \<open>None\<close>
  when the candidates are used up.
\<close>

fun find_swig_file :: "env \<Rightarrow> string \<Rightarrow> string list \<Rightarrow> string option" where
  "find_swig_file env d [] = None"
| "find_swig_file env d (fname # rest) =
     (if isfile env (path_join d [''swig'', fname]) then Some fname
      else find_swig_file env d rest)"

definition get_mainswigfile :: "env \<Rightarrow> modtool \<Rightarrow> error + string option" where
  "get_mainswigfile env st =
     thenE (info_str st ''modname'') (\<lambda>modname.
       let swig_files = [modname @ ''.i'', modname @ ''_swig.i'']
       in case self_dir st of
            None \<Rightarrow> Inl TypeError
          | Some d \<Rightarrow> Inr (find_swig_file env d swig_files))"

section \<open>\<^verbatim>\<open>_check_directory\<close>\<close>

text \<open>
  The loop over the directory listing, carrying \<^verbatim>\<open>has_makefile\<close> and the object.
  The two \<^verbatim>\<open>open(f).read()\<close> of one iteration read the same file, so the text is
  read once here.
\<close>

fun check_entries :: "env \<Rightarrow> string list \<Rightarrow> bool \<Rightarrow> modtool \<Rightarrow> error + (bool \<times> modtool)" where
  "check_entries env [] has_makefile st = Inr (has_makefile, st)"
| "check_entries env (f # files) has_makefile st =
     (if isfile env f \<and> f = ''CMakeLists.txt'' then
        (case read_text env f of
           None \<Rightarrow> Inl IOError
         | Some text \<Rightarrow>
             if re_search ''find_package(Gnuradio'' text then
               check_entries env files True (set_info ''version'' (PyStr ''36'') st)
             else if re_search ''GR_REGISTER_COMPONENT'' text then
               check_entries env files True
                 (set_info ''is_component'' (PyBool True) (set_info ''version'' (PyStr ''36'') st))
             else check_entries env files has_makefile st)
      else if isdir env f then
        (if f \<in> set (dict_keys (self_has_subdirs st)) then
           check_entries env files has_makefile (set_has f True st)
         else check_entries env files has_makefile (set_skip f True st))
      else check_entries env files has_makefile st)"

text \<open>
  The returned flag is \<^verbatim>\<open>bool(has_makefile and (self._has_subdirs.values()))\<close>: the
  second operand is the collection of values itself, which is true when it is not empty.
\<close>

definition check_directory :: "env \<Rightarrow> string \<Rightarrow> modtool \<Rightarrow> error + (bool \<times> modtool)" where
  "check_directory env d st =
     (case listdir env d of
        None \<Rightarrow> Inr (False, st)
      | Some files \<Rightarrow>
          if chdir env d then
            thenE (check_entries env files False (set_info ''is_component'' (PyBool False) st))
              (\<lambda>(has_makefile, st').
                 Inr (has_makefile \<and> dict_values (self_has_subdirs st') \<noteq> [], st'))
          else Inr (False, st))"

section \<open>\<^verbatim>\<open>_setup_files\<close>\<close>

text \<open>
  The first statement: the main interface file is entered only when swig is not skipped.
  \<^verbatim>\<open>os.path.join('swig', None)\<close> raises \<open>TypeError\<close>.
\<close>

definition setup_swig_file :: "env \<Rightarrow> modtool \<Rightarrow> error + modtool" where
  "setup_swig_file env st =
     thenE (dict_get (self_skip_subdirs st) ''swig'') (\<lambda>skipped.
       if skipped then Inr st
       else thenE (get_mainswigfile env st) (\<lambda>mainswig.
              case mainswig of
                None \<Rightarrow> Inl TypeError
              | Some fname \<Rightarrow> Inr (set_file ''swig'' (path_join ''swig'' [fname]) st)))"

text \<open>The choice of the include directory, the \<^verbatim>\<open>if\<close>/\<^verbatim>\<open>elif\<close>/\<^verbatim>\<open>else\<close> of the function.\<close>

definition choose_includedir :: "modtool \<Rightarrow> string \<Rightarrow> error + string" where
  "choose_includedir st modname =
     thenE (dict_get (self_info st) ''is_component'') (\<lambda>is_component.
       if truthy is_component then Inr (path_join ''include'' [''gnuradio'', modname])
       else thenE (dict_get (self_info st) ''version'') (\<lambda>version.
              if version = PyStr ''37'' then Inr (path_join ''include'' [modname])
              else Inr ''include''))"

definition setup_files :: "env \<Rightarrow> modtool \<Rightarrow> error + modtool" where
  "setup_files env st0 =
     thenE (setup_swig_file env st0) (\<lambda>st1.
     thenE (info_str st1 ''modname'') (\<lambda>modname.
       let pydir = (if isdir env (path_join ''python'' [modname])
                    then path_join ''python'' [modname] else ''python'');
           st2 = set_info ''pydir'' (PyStr pydir) st1;
           st3 = set_file ''qalib'' (path_join ''lib'' [''qa_'' @ modname @ ''.cc'']) st2;
           st4 = set_file ''pyinit'' (path_join pydir [''__init__.py'']) st3;
           st5 = set_file ''cmlib'' (path_join ''lib'' [''CMakeLists.txt'']) st4;
           st6 = set_file ''cmgrc'' (path_join ''grc'' [''CMakeLists.txt'']) st5;
           st7 = set_file ''cmpython'' (path_join pydir [''CMakeLists.txt'']) st6
       in
     thenE (choose_includedir st7 modname) (\<lambda>includedir.
       let st8 = set_info ''includedir'' (PyStr includedir) st7;
           st9 = set_file ''cminclude'' (path_join includedir [''CMakeLists.txt'']) st8;
           st10 = set_file ''cmswig'' (path_join ''swig'' [''CMakeLists.txt'']) st9
       in Inr (set_file ''cmfind''
                 (path_join ''cmake'' [''Modules'', ''rfnoc_exampleConfig.cmake'']) st10))))"

section \<open>\<^verbatim>\<open>setup\<close>\<close>

text \<open>
  The version check of \<^verbatim>\<open>setup\<close>: a module first taken for version 36 is version 37
  when it has an include directory of its own.
\<close>

definition upgrade_version :: "env \<Rightarrow> modtool \<Rightarrow> error + modtool" where
  "upgrade_version env st =
     thenE (dict_get (self_info st) ''version'') (\<lambda>version.
       if version = PyStr ''36'' then
         thenE (info_str st ''modname'') (\<lambda>modname.
           if isdir env (path_join ''include'' [modname])
              \<or> isdir env (path_join ''include'' [''gnuradio'', modname])
           then Inr (set_info ''version'' (PyStr ''37'') st)
           else Inr st)
       else Inr st)"

text \<open>
  One statement \<^verbatim>\<open>if flag or not self._has_subdirs[h]: self._skip_subdirs[s] = True\<close>;
  the dictionary is read only when \<open>flag\<close> is false.
\<close>

definition skip_unless_present :: "bool \<Rightarrow> string \<Rightarrow> string \<Rightarrow> modtool \<Rightarrow> error + modtool" where
  "skip_unless_present flag h s st =
     (if flag then Inr (set_skip s True st)
      else thenE (dict_get (self_has_subdirs st) h) (\<lambda>present.
             if present then Inr st else Inr (set_skip s True st)))"

text \<open>The same statement for swig, with the main interface file looked up in between.\<close>

definition skip_swig_stage :: "env \<Rightarrow> bool \<Rightarrow> modtool \<Rightarrow> error + modtool" where
  "skip_swig_stage env flag st =
     (if flag then Inr (set_skip ''swig'' True st)
      else thenE (get_mainswigfile env st) (\<lambda>mainswig.
             case mainswig of
               None \<Rightarrow> Inr (set_skip ''swig'' True st)
             | Some fname \<Rightarrow> skip_unless_present False ''swig'' ''swig'' st))"

text \<open>The six statements that derive the skipped stages, in the order of the source.\<close>

definition setup_skip_subdirs :: "env \<Rightarrow> args \<Rightarrow> modtool \<Rightarrow> error + modtool" where
  "setup_skip_subdirs env a st0 =
     thenE (skip_unless_present (skip_lib a) ''lib'' ''lib'' st0) (\<lambda>st1.
     thenE (skip_unless_present (skip_python a) ''python'' ''python'' st1) (\<lambda>st2.
     thenE (skip_swig_stage env (skip_swig a) st2) (\<lambda>st3.
     thenE (skip_unless_present (skip_grc a) ''grc'' ''grc'' st3) (\<lambda>st4.
     thenE (skip_unless_present (skip_grc a) ''examples'' ''examples'' st4) (\<lambda>st5.
            skip_unless_present (skip_grc a) ''grc'' ''rfnoc'' st5)))))"

definition no_module_found :: error where
  "no_module_found = ModToolException ''No RFNoC module found in the given directory.''"

text \<open>\<^verbatim>\<open>setup\<close> up to the call of \<^verbatim>\<open>_setup_files\<close>.\<close>

definition setup_until_files :: "env \<Rightarrow> args \<Rightarrow> modtool \<Rightarrow> error + modtool" where
  "setup_until_files env a st0 =
     (let st1 = st0\<lparr> self_dir := Some (directory a) \<rparr>;
          st2 = set_info ''modpath'' (PyStr (abspath env (directory a))) st1
      in
     thenE (check_directory env (directory a) st2) (\<lambda>(found, st3).
       if found then
         (let st4 = set_info ''modname''
                      (case opt_module_name a of
                         Some n \<Rightarrow> PyStr n
                       | None \<Rightarrow> (case get_modname env of Some n \<Rightarrow> PyStr n | None \<Rightarrow> PyNone))
                      st3
          in
          thenE (dict_get (self_info st4) ''modname'') (\<lambda>modname.
            if modname = PyNone then Inl no_module_found
            else
              thenE (upgrade_version env st4) (\<lambda>st5.
              thenE (setup_skip_subdirs env a st5) (\<lambda>st6.
                Inr (set_info ''blockname''
                       (case opt_block_name a of Some b \<Rightarrow> PyStr b | None \<Rightarrow> PyNone) st6)))))
       else Inl no_module_found))"

text \<open>
  \<^verbatim>\<open>ModTool.setup\<close>. The last step is \<^verbatim>\<open>_setup_scm\<close>, which leaves the interpreter when no
  source control manager can be made.
\<close>

definition modtool_setup :: "env \<Rightarrow> args \<Rightarrow> modtool \<Rightarrow> error + modtool" where
  "modtool_setup env a st0 =
     thenE (setup_until_files env a st0) (\<lambda>st1.
     thenE (setup_files env st1) (\<lambda>st2.
       let st3 = (set_info ''yes'' (PyBool (yes a)) st2)\<lparr> self_args := Some a \<rparr>
       in if scm_manager env then Inr st3 else Inl (SystemExit 1)))"

section \<open>Observations and example inputs\<close>

text \<open>
  The eight entries that \<^verbatim>\<open>_setup_files\<close> writes after the swig entry, in the order of
  the source, as one update of \<^verbatim>\<open>self._file\<close>.
\<close>

definition file_entries :: "string \<Rightarrow> string \<Rightarrow> string \<Rightarrow> string dict \<Rightarrow> string dict" where
  "file_entries modname pydir includedir d =
     dict_set ''cmfind'' (path_join ''cmake'' [''Modules'', ''rfnoc_exampleConfig.cmake''])
       (dict_set ''cmswig'' (path_join ''swig'' [''CMakeLists.txt''])
         (dict_set ''cminclude'' (path_join includedir [''CMakeLists.txt''])
           (dict_set ''cmpython'' (path_join pydir [''CMakeLists.txt''])
             (dict_set ''cmgrc'' (path_join ''grc'' [''CMakeLists.txt''])
               (dict_set ''cmlib'' (path_join ''lib'' [''CMakeLists.txt''])
                 (dict_set ''pyinit'' (path_join pydir [''__init__.py''])
                   (dict_set ''qalib'' (path_join ''lib'' [''qa_'' @ modname @ ''.cc'']) d)))))))"

text \<open>
  What \<^verbatim>\<open>_setup_files\<close> produces: the dictionary \<^verbatim>\<open>self._file\<close> together with the
  entries \<^verbatim>\<open>pydir\<close> and \<^verbatim>\<open>includedir\<close> of \<^verbatim>\<open>self._info\<close>.
\<close>

definition fileset :: "modtool \<Rightarrow> string dict \<times> pyval option \<times> pyval option" where
  "fileset st =
     (self_file st, map_of (self_info st) ''pydir'', map_of (self_info st) ''includedir'')"

text \<open>
  A module directory with nothing but a \<^verbatim>\<open>CMakeLists.txt\<close> that names the package.
\<close>

definition bare_env :: env where
  "bare_env =
     \<lparr> listdir = (\<lambda>d. if d = ''.'' then Some [''CMakeLists.txt''] else None),
       chdir = (\<lambda>d. d = ''.''),
       isfile = (\<lambda>p. p = ''CMakeLists.txt''),
       isdir = (\<lambda>p. False),
       read_text = (\<lambda>p. if p = ''CMakeLists.txt'' then Some ''find_package(Gnuradio)''
                          else None),
       abspath = (\<lambda>p. ''/work/rfnoc-foo''),
       get_modname = Some ''foo'',
       scm_manager = True \<rparr>"

text \<open>
  A module \<^verbatim>\<open>foo\<close> with the directories grc, examples, rfnoc, swig, docs and include,
  the interface file \<^verbatim>\<open>swig/foo_swig.i\<close> and an include directory of its own.
\<close>

definition module_env :: env where
  "module_env =
     \<lparr> listdir = (\<lambda>d. if d = ''.''
                       then Some [''CMakeLists.txt'', ''grc'', ''examples'', ''rfnoc'', ''swig'',
                                  ''docs'', ''include'']
                       else None),
       chdir = (\<lambda>d. d = ''.''),
       isfile = (\<lambda>p. p = ''CMakeLists.txt'' \<or> p = ''./swig/foo_swig.i''),
       isdir = (\<lambda>p. p = ''grc'' \<or> p = ''examples'' \<or> p = ''rfnoc'' \<or> p = ''swig''
                      \<or> p = ''docs'' \<or> p = ''include'' \<or> p = ''include/foo''),
       read_text = (\<lambda>p. if p = ''CMakeLists.txt'' then Some ''find_package(Gnuradio)''
                          else None),
       abspath = (\<lambda>p. ''/work/rfnoc-foo''),
       get_modname = Some ''foo'',
       scm_manager = True \<rparr>"

text \<open>The command line without any option.\<close>

definition default_args :: args where
  "default_args =
     \<lparr> directory = ''.'', opt_module_name = None, opt_block_name = None,
       skip_lib = False, skip_swig = False, skip_python = False, skip_grc = False,
       skip_examples = False, skip_rfnoc = False, scm_mode = ''no'', yes = False \<rparr>"

text \<open>The object in \<open>module_env\<close> once the directory is checked and the name is known.\<close>

definition detected :: modtool where
  "detected =
     \<lparr> self_dir = Some ''.'',
       self_has_subdirs = [(''lib'', False), (''include'', True), (''python'', False),
          (''swig'', True), (''grc'', True), (''examples'', True), (''rfnoc'', True)],
       self_skip_subdirs = [(''lib'', False), (''include'', False), (''python'', False),
          (''swig'', False), (''grc'', False), (''examples'', False), (''rfnoc'', False),
          (''docs'', True)],
       self_info = [(''modpath'', PyStr ''/work/rfnoc-foo''), (''is_component'', PyBool False),
          (''version'', PyStr ''36''), (''modname'', PyStr ''foo'')],
       self_file = [],
       self_args = None \<rparr>"

text \<open>The same object at the call of \<^verbatim>\<open>_setup_files\<close>.\<close>

definition prepared :: modtool where
  "prepared =
     \<lparr> self_dir = Some ''.'',
       self_has_subdirs = [(''lib'', False), (''include'', True), (''python'', False),
          (''swig'', True), (''grc'', True), (''examples'', True), (''rfnoc'', True)],
       self_skip_subdirs = [(''lib'', True), (''include'', False), (''python'', True),
          (''swig'', False), (''grc'', False), (''examples'', False), (''rfnoc'', False),
          (''docs'', True)],
       self_info = [(''modpath'', PyStr ''/work/rfnoc-foo''), (''is_component'', PyBool False),
          (''version'', PyStr ''37''), (''modname'', PyStr ''foo''), (''blockname'', PyNone)],
       self_file = [],
       self_args = None \<rparr>"

text \<open>And after \<^verbatim>\<open>_setup_files\<close>.\<close>

definition configured :: modtool where
  "configured =
     \<lparr> self_dir = Some ''.'',
       self_has_subdirs = [(''lib'', False), (''include'', True), (''python'', False),
          (''swig'', True), (''grc'', True), (''examples'', True), (''rfnoc'', True)],
       self_skip_subdirs = [(''lib'', True), (''include'', False), (''python'', True),
          (''swig'', False), (''grc'', False), (''examples'', False), (''rfnoc'', False),
          (''docs'', True)],
       self_info = [(''modpath'', PyStr ''/work/rfnoc-foo''), (''is_component'', PyBool False),
          (''version'', PyStr ''37''), (''modname'', PyStr ''foo''), (''blockname'', PyNone),
          (''pydir'', PyStr ''python''), (''includedir'', PyStr ''include/foo'')],
       self_file = [(''swig'', ''swig/foo_swig.i''), (''qalib'', ''lib/qa_foo.cc''),
          (''pyinit'', ''python/__init__.py''), (''cmlib'', ''lib/CMakeLists.txt''),
          (''cmgrc'', ''grc/CMakeLists.txt''), (''cmpython'', ''python/CMakeLists.txt''),
          (''cminclude'', ''include/foo/CMakeLists.txt''), (''cmswig'', ''swig/CMakeLists.txt''),
          (''cmfind'', ''cmake/Modules/rfnoc_exampleConfig.cmake'')],
       self_args = None \<rparr>"

text \<open>
  An object that differs from \<open>prepared\<close> in the presence dictionary, in the skip entries
  other than swig, in the entries of \<^verbatim>\<open>self._info\<close> that \<^verbatim>\<open>_setup_files\<close> does not
  read, and in \<^verbatim>\<open>self.args\<close>.
\<close>

definition prepared_variant :: modtool where
  "prepared_variant =
     \<lparr> self_dir = Some ''.'',
       self_has_subdirs = [(''lib'', True), (''include'', True), (''python'', True),
          (''swig'', True), (''grc'', False), (''examples'', False), (''rfnoc'', False)],
       self_skip_subdirs = [(''lib'', False), (''include'', False), (''python'', False),
          (''swig'', False), (''grc'', True), (''examples'', True), (''rfnoc'', True)],
       self_info = [(''is_component'', PyBool False), (''version'', PyStr ''37''),
          (''modname'', PyStr ''foo''), (''blockname'', PyStr ''fir''),
          (''modpath'', PyStr ''/elsewhere'')],
       self_file = [],
       self_args = Some default_args \<rparr>"

text \<open>
  The object that \<^verbatim>\<open>setup\<close> hands to \<^verbatim>\<open>_setup_files\<close> in \<open>bare_env\<close>: every stage
  is skipped.
\<close>

definition all_skipped :: modtool where
  "all_skipped =
     \<lparr> self_dir = Some ''.'',
       self_has_subdirs = [(''lib'', False), (''include'', False), (''python'', False),
          (''swig'', False), (''grc'', False), (''examples'', False), (''rfnoc'', False)],
       self_skip_subdirs = [(''lib'', True), (''include'', False), (''python'', True),
          (''swig'', True), (''grc'', True), (''examples'', True), (''rfnoc'', True)],
       self_info = [(''modpath'', PyStr ''/work/rfnoc-foo''), (''is_component'', PyBool False),
          (''version'', PyStr ''36''), (''modname'', PyStr ''foo''), (''blockname'', PyNone)],
       self_file = [],
       self_args = None \<rparr>"

text \<open>
  \<open>prepared\<close> with swig skipped, as a fresh object has it and as an object has it on which
  \<^verbatim>\<open>_setup_files\<close> ran before, when swig was not skipped: the two differ in
  \<^verbatim>\<open>self._file\<close> only.
\<close>

definition swig_skipped :: modtool where
  "swig_skipped =
     \<lparr> self_dir = Some ''.'',
       self_has_subdirs = [(''lib'', False), (''include'', True), (''python'', False),
          (''swig'', True), (''grc'', True), (''examples'', True), (''rfnoc'', True)],
       self_skip_subdirs = [(''lib'', True), (''include'', False), (''python'', True),
          (''swig'', True), (''grc'', False), (''examples'', False), (''rfnoc'', False),
          (''docs'', True)],
       self_info = [(''modpath'', PyStr ''/work/rfnoc-foo''), (''is_component'', PyBool False),
          (''version'', PyStr ''37''), (''modname'', PyStr ''foo''), (''blockname'', PyNone)],
       self_file = [],
       self_args = None \<rparr>"

definition swig_skipped_again :: modtool where
  "swig_skipped_again =
     \<lparr> self_dir = Some ''.'',
       self_has_subdirs = [(''lib'', False), (''include'', True), (''python'', False),
          (''swig'', True), (''grc'', True), (''examples'', True), (''rfnoc'', True)],
       self_skip_subdirs = [(''lib'', True), (''include'', False), (''python'', True),
          (''swig'', True), (''grc'', False), (''examples'', False), (''rfnoc'', False),
          (''docs'', True)],
       self_info = [(''modpath'', PyStr ''/work/rfnoc-foo''), (''is_component'', PyBool False),
          (''version'', PyStr ''37''), (''modname'', PyStr ''foo''), (''blockname'', PyNone)],
       self_file = [(''swig'', ''swig/foo_swig.i''), (''qalib'', ''lib/qa_foo.cc''),
          (''pyinit'', ''python/__init__.py''), (''cmlib'', ''lib/CMakeLists.txt''),
          (''cmgrc'', ''grc/CMakeLists.txt''), (''cmpython'', ''python/CMakeLists.txt''),
          (''cminclude'', ''include/foo/CMakeLists.txt''), (''cmswig'', ''swig/CMakeLists.txt''),
          (''cmfind'', ''cmake/Modules/rfnoc_exampleConfig.cmake'')],
       self_args = None \<rparr>"

text \<open>
  The module \<^verbatim>\<open>foo\<close> in the directory \<^verbatim>\<open>mod\<close> below the directory the tool is started
  in, named on the command line as \<^verbatim>\<open>-d mod\<close>. After \<^verbatim>\<open>os.chdir('mod')\<close> its files are
  \<^verbatim>\<open>CMakeLists.txt\<close> and \<^verbatim>\<open>swig/foo_swig.i\<close>; there is no \<^verbatim>\<open>mod\<close> inside \<^verbatim>\<open>mod\<close>.
\<close>

definition relative_env :: env where
  "relative_env =
     \<lparr> listdir = (\<lambda>d. if d = ''mod'' then Some [''CMakeLists.txt'', ''swig''] else None),
       chdir = (\<lambda>d. d = ''mod''),
       isfile = (\<lambda>p. p = ''CMakeLists.txt'' \<or> p = ''swig/foo_swig.i''),
       isdir = (\<lambda>p. p = ''swig''),
       read_text = (\<lambda>p. if p = ''CMakeLists.txt'' then Some ''find_package(Gnuradio)''
                          else None),
       abspath = (\<lambda>p. ''/work/mod''),
       get_modname = Some ''foo'',
       scm_manager = True \<rparr>"

definition relative_args :: args where
  "relative_args =
     \<lparr> directory = ''mod'', opt_module_name = None, opt_block_name = None,
       skip_lib = False, skip_swig = False, skip_python = False, skip_grc = False,
       skip_examples = False, skip_rfnoc = False, scm_mode = ''no'', yes = False \<rparr>"

text \<open>The object that \<^verbatim>\<open>setup\<close> hands to \<^verbatim>\<open>_setup_files\<close> there.\<close>

definition relative_prepared :: modtool where
  "relative_prepared =
     \<lparr> self_dir = Some ''mod'',
       self_has_subdirs = [(''lib'', False), (''include'', False), (''python'', False),
          (''swig'', True), (''grc'', False), (''examples'', False), (''rfnoc'', False)],
       self_skip_subdirs = [(''lib'', True), (''include'', False), (''python'', True),
          (''swig'', True), (''grc'', True), (''examples'', True), (''rfnoc'', True)],
       self_info = [(''modpath'', PyStr ''/work/mod''), (''is_component'', PyBool False),
          (''version'', PyStr ''36''), (''modname'', PyStr ''foo''), (''blockname'', PyNone)],
       self_file = [],
       self_args = None \<rparr>"

section \<open>Basic facts\<close>

lemma thenE_Inl [simp]: "thenE (Inl e) f = Inl e"
  by (simp add: thenE_def)

lemma thenE_Inr [simp]: "thenE (Inr x) f = f x"
  by (simp add: thenE_def)

lemma thenE_eq_Inr: "thenE m f = Inr y \<longleftrightarrow> (\<exists>x. m = Inr x \<and> f x = Inr y)"
  by (cases m) simp_all

lemma map_of_dict_set: "map_of (dict_set k v d) = (map_of d)(k \<mapsto> v)"
  by (simp add: dict_set_def update_conv')

lemma dict_keys_set_existing:
  "k \<in> set (dict_keys d) \<Longrightarrow> dict_keys (dict_set k v d) = dict_keys d"
  by (simp add: dict_keys_def dict_set_def update_keys)

lemma dict_get_Some: "map_of d k = Some v \<Longrightarrow> dict_get d k = Inr v"
  by (simp add: dict_get_def)

lemma dict_get_eq_Inr: "dict_get d k = Inr v \<longleftrightarrow> map_of d k = Some v"
  by (simp add: dict_get_def split: option.splits)

lemma info_str_PyStr: "map_of (self_info st) k = Some (PyStr s) \<Longrightarrow> info_str st k = Inr s"
  by (simp add: info_str_def dict_get_Some)

lemma info_str_eq_Inr: "info_str st k = Inr s \<longleftrightarrow> map_of (self_info st) k = Some (PyStr s)"
  by (cases "dict_get (self_info st) k"; cases "projr (dict_get (self_info st) k)")
     (auto simp: info_str_def dict_get_eq_Inr [symmetric])

lemma info_str_cong:
  "map_of (self_info st) k = map_of (self_info st') k \<Longrightarrow> info_str st k = info_str st' k"
  by (simp add: info_str_def dict_get_def)

lemma set_info_fields [simp]:
  "self_dir (set_info k v st) = self_dir st"
  "self_has_subdirs (set_info k v st) = self_has_subdirs st"
  "self_skip_subdirs (set_info k v st) = self_skip_subdirs st"
  "self_file (set_info k v st) = self_file st"
  "self_args (set_info k v st) = self_args st"
  "self_info (set_info k v st) = dict_set k v (self_info st)"
  by (simp_all add: set_info_def)

lemma set_file_fields [simp]:
  "self_dir (set_file k v st) = self_dir st"
  "self_has_subdirs (set_file k v st) = self_has_subdirs st"
  "self_skip_subdirs (set_file k v st) = self_skip_subdirs st"
  "self_info (set_file k v st) = self_info st"
  "self_args (set_file k v st) = self_args st"
  "self_file (set_file k v st) = dict_set k v (self_file st)"
  by (simp_all add: set_file_def)

lemma set_has_fields [simp]:
  "self_dir (set_has k v st) = self_dir st"
  "self_info (set_has k v st) = self_info st"
  "self_skip_subdirs (set_has k v st) = self_skip_subdirs st"
  "self_file (set_has k v st) = self_file st"
  "self_args (set_has k v st) = self_args st"
  "self_has_subdirs (set_has k v st) = dict_set k v (self_has_subdirs st)"
  by (simp_all add: set_has_def)

lemma set_skip_fields [simp]:
  "self_dir (set_skip k v st) = self_dir st"
  "self_info (set_skip k v st) = self_info st"
  "self_has_subdirs (set_skip k v st) = self_has_subdirs st"
  "self_file (set_skip k v st) = self_file st"
  "self_args (set_skip k v st) = self_args st"
  "self_skip_subdirs (set_skip k v st) = dict_set k v (self_skip_subdirs st)"
  by (simp_all add: set_skip_def)

section \<open>The main interface file\<close>

lemma get_mainswigfile_cong:
  assumes "map_of (self_info st) ''modname'' = map_of (self_info st') ''modname''"
    and "self_dir st = self_dir st'"
  shows "get_mainswigfile env st = get_mainswigfile env st'"
  using assms by (simp add: get_mainswigfile_def info_str_cong [of st _ st'])

text \<open>
  The loop of \<^verbatim>\<open>_get_mainswigfile\<close> unrolled: the candidates are \<^verbatim>\<open><name>.i\<close> and
  \<^verbatim>\<open><name>_swig.i\<close>, in that order, and each is looked for at
  \<^verbatim>\<open>os.path.join(self._dir, 'swig', fname)\<close>.
\<close>

lemma get_mainswigfile_eq:
  assumes "map_of (self_info st) ''modname'' = Some (PyStr name)"
    and "self_dir st = Some d"
  shows "get_mainswigfile env st =
           Inr (if isfile env (path_join d [''swig'', name @ ''.i'']) then Some (name @ ''.i'')
                else if isfile env (path_join d [''swig'', name @ ''_swig.i''])
                     then Some (name @ ''_swig.i'')
                else None)"
  using assms by (simp add: get_mainswigfile_def info_str_PyStr)

text \<open>
  Claim C4. For every module name, \<^verbatim>\<open>_get_mainswigfile\<close> tries \<^verbatim>\<open><name>.i\<close> and then
  \<^verbatim>\<open><name>_swig.i\<close> inside the swig subdirectory of the module and returns the first that
  is a regular file; in particular it returns \<^verbatim>\<open><name>_swig.i\<close> when only that one
  exists. The code looks at \<^verbatim>\<open>os.path.join(self._dir, 'swig', fname)\<close> after \<^verbatim>\<open>setup\<close>
  has changed into \<^verbatim>\<open>self._dir\<close>, so the directory is applied twice. For the module in
  \<open>relative_env\<close>, reached with \<^verbatim>\<open>-d mod\<close>, the file \<^verbatim>\<open>swig/foo_swig.i\<close> exists, the
  path tested is \<^verbatim>\<open>mod/swig/foo_swig.i\<close>, the function returns \<^verbatim>\<open>None\<close> and swig is
  skipped.
\<close>

theorem get_mainswigfile_relative_directory:
  "setup_until_files relative_env relative_args init = Inr relative_prepared
   \<and> isfile relative_env (path_join ''swig'' [''foo_swig.i''])
   \<and> path_join ''mod'' [''swig'', ''foo_swig.i''] = ''mod/swig/foo_swig.i''
   \<and> get_mainswigfile relative_env relative_prepared = Inr None
   \<and> map_of (self_skip_subdirs relative_prepared) ''swig'' = Some True"
  by code_simp

section \<open>The version check\<close>

text \<open>
  Claim C5. For a module whose detected version is \<^verbatim>\<open>'36'\<close>: if \<^verbatim>\<open>include/<name>\<close> or
  \<^verbatim>\<open>include/gnuradio/<name>\<close> is a directory, the version check of \<^verbatim>\<open>setup\<close> makes the
  version \<^verbatim>\<open>'37'\<close>; if neither is a directory, or the detected version is not \<^verbatim>\<open>'36'\<close>,
  the object is left as it is.
\<close>

theorem upgrade_version_36_to_37:
  assumes "map_of (self_info st) ''version'' = Some version"
    and "map_of (self_info st) ''modname'' = Some (PyStr name)"
  shows "upgrade_version env st =
           Inr (if version = PyStr ''36''
                   \<and> (isdir env (path_join ''include'' [name])
                      \<or> isdir env (path_join ''include'' [''gnuradio'', name]))
                then set_info ''version'' (PyStr ''37'') st
                else st)"
  using assms by (simp add: upgrade_version_def info_str_PyStr dict_get_Some)

theorem upgrade_version_36_to_37_witness:
  "map_of (self_info detected) ''version'' = Some (PyStr ''36'')
   \<and> map_of (self_info detected) ''modname'' = Some (PyStr ''foo'')
   \<and> isdir module_env ''include/foo''
   \<and> upgrade_version module_env detected = Inr (set_info ''version'' (PyStr ''37'') detected)
   \<and> map_of (self_info (set_info ''version'' (PyStr ''37'') detected)) ''version''
       = Some (PyStr ''37'')"
  using upgrade_version_36_to_37 [of detected "PyStr ''36''" "''foo''" module_env]
  by (simp add: detected_def module_env_def path_join_def path_join2_def map_of_dict_set)

text \<open>
  Claim C10. The version check of \<^verbatim>\<open>setup\<close> changes at most the entry \<^verbatim>\<open>version\<close> of
  \<^verbatim>\<open>self._info\<close>: the module name, the module path, the component flag and every other
  entry, the presence dictionary and the skip dictionary (and all other attributes) are
  as before.
\<close>

theorem upgrade_version_frame:
  assumes "upgrade_version env st = Inr st'"
  shows "self_dir st' = self_dir st
         \<and> self_has_subdirs st' = self_has_subdirs st
         \<and> self_skip_subdirs st' = self_skip_subdirs st
         \<and> self_file st' = self_file st
         \<and> self_args st' = self_args st
         \<and> (\<forall>k. k \<noteq> ''version'' \<longrightarrow> map_of (self_info st') k = map_of (self_info st) k)"
  using assms
  by (auto simp: upgrade_version_def thenE_eq_Inr map_of_dict_set split: if_splits)

theorem upgrade_version_frame_witness:
  "upgrade_version module_env detected = Inr (set_info ''version'' (PyStr ''37'') detected)
   \<and> map_of (self_info (set_info ''version'' (PyStr ''37'') detected)) ''modname''
       = map_of (self_info detected) ''modname''
   \<and> map_of (self_info (set_info ''version'' (PyStr ''37'') detected)) ''modpath''
       = map_of (self_info detected) ''modpath''
   \<and> map_of (self_info (set_info ''version'' (PyStr ''37'') detected)) ''is_component''
       = map_of (self_info detected) ''is_component''
   \<and> self_has_subdirs (set_info ''version'' (PyStr ''37'') detected) = self_has_subdirs detected
   \<and> self_skip_subdirs (set_info ''version'' (PyStr ''37'') detected)
       = self_skip_subdirs detected"
proof -
  have run: "upgrade_version module_env detected
             = Inr (set_info ''version'' (PyStr ''37'') detected)"
    by (simp add: upgrade_version_def info_str_def dict_get_def detected_def module_env_def
        path_join_def path_join2_def)
  from upgrade_version_frame [OF run] run show ?thesis
    by simp
qed

section \<open>The file set\<close>

lemma setup_swig_file_Inr:
  assumes "setup_swig_file env st = Inr st1"
  shows "self_info st1 = self_info st \<and> self_dir st1 = self_dir st
         \<and> self_has_subdirs st1 = self_has_subdirs st
         \<and> self_skip_subdirs st1 = self_skip_subdirs st
         \<and> self_args st1 = self_args st
         \<and> ((map_of (self_skip_subdirs st) ''swig'' = Some True \<and> st1 = st)
             \<or> (map_of (self_skip_subdirs st) ''swig'' = Some False
                 \<and> (\<exists>fname. get_mainswigfile env st = Inr (Some fname)
                       \<and> st1 = set_file ''swig'' (path_join ''swig'' [fname]) st)))"
proof (cases "map_of (self_skip_subdirs st) ''swig''")
  case None
  with assms show ?thesis
    by (simp add: setup_swig_file_def dict_get_def)
next
  case (Some skipped)
  show ?thesis
  proof (cases skipped)
    case True
    with Some assms show ?thesis
      by (simp add: setup_swig_file_def dict_get_def)
  next
    case False
    with Some assms obtain mainswig where m: "get_mainswigfile env st = Inr mainswig"
      by (cases "get_mainswigfile env st") (simp_all add: setup_swig_file_def dict_get_def)
    with Some False assms show ?thesis
      by (cases mainswig) (auto simp: setup_swig_file_def dict_get_def)
  qed
qed

lemma setup_swig_file_cong:
  assumes "map_of (self_info st) ''modname'' = map_of (self_info st') ''modname''"
    and sk: "map_of (self_skip_subdirs st) ''swig'' = map_of (self_skip_subdirs st') ''swig''"
    and "self_dir st = self_dir st'"
    and fl: "self_file st = self_file st'"
  shows "map_sum id self_file (setup_swig_file env st)
         = map_sum id self_file (setup_swig_file env st')"
proof -
  have m: "get_mainswigfile env st = get_mainswigfile env st'"
    using assms(1,3) by (rule get_mainswigfile_cong)
  have g: "dict_get (self_skip_subdirs st) ''swig'' = dict_get (self_skip_subdirs st') ''swig''"
    using sk by (simp add: dict_get_def)
  show ?thesis
  proof (cases "dict_get (self_skip_subdirs st') ''swig''")
    case (Inl e)
    then show ?thesis
      by (simp add: setup_swig_file_def g)
  next
    case skipped: (Inr skipped)
    show ?thesis
    proof (cases "get_mainswigfile env st'")
      case (Inl e)
      then show ?thesis
        by (simp add: setup_swig_file_def g m skipped fl)
    next
      case (Inr mainswig)
      then show ?thesis
        by (cases mainswig) (simp_all add: setup_swig_file_def g m skipped fl)
    qed
  qed
qed

lemma choose_includedir_eq:
  assumes "map_of (self_info st) ''is_component'' = Some c"
  shows "choose_includedir st name =
           (if truthy c then Inr (path_join ''include'' [''gnuradio'', name])
            else case map_of (self_info st) ''version'' of
                   None \<Rightarrow> Inl (KeyError ''version'')
                 | Some v \<Rightarrow> Inr (if v = PyStr ''37'' then path_join ''include'' [name]
                                  else ''include''))"
  using assms by (simp add: choose_includedir_def dict_get_def split: option.splits)

lemma choose_includedir_cong:
  assumes "map_of (self_info st) ''is_component'' = map_of (self_info st') ''is_component''"
    and "map_of (self_info st) ''version'' = map_of (self_info st') ''version''"
  shows "choose_includedir st name = choose_includedir st' name"
  using assms by (simp add: choose_includedir_def dict_get_def cong del: if_weak_cong)

lemma choose_includedir_set_file [simp]:
  "choose_includedir (set_file k v st) name = choose_includedir st name"
  by (rule choose_includedir_cong) simp_all

lemma choose_includedir_set_pydir [simp]:
  "choose_includedir (set_info ''pydir'' v st) name = choose_includedir st name"
  by (rule choose_includedir_cong) (simp_all add: map_of_dict_set)

lemma setup_files_error_swig:
  "setup_swig_file env st = Inl e \<Longrightarrow> setup_files env st = Inl e"
  by (simp add: setup_files_def)

lemma setup_files_error_modname:
  "setup_swig_file env st = Inr a \<Longrightarrow> info_str a ''modname'' = Inl e
   \<Longrightarrow> setup_files env st = Inl e"
  by (simp add: setup_files_def)

lemma setup_files_error_includedir:
  "setup_swig_file env st = Inr a \<Longrightarrow> info_str a ''modname'' = Inr name
   \<Longrightarrow> choose_includedir a name = Inl e \<Longrightarrow> setup_files env st = Inl e"
  by (simp add: setup_files_def Let_def)

lemma setup_files_after_swig:
  assumes "setup_swig_file env st = Inr a"
    and "info_str a ''modname'' = Inr name"
    and "choose_includedir a name = Inr includedir"
    and "pydir = (if isdir env (path_join ''python'' [name])
                  then path_join ''python'' [name] else ''python'')"
  shows "\<exists>st'. setup_files env st = Inr st'
           \<and> self_file st' = file_entries name pydir includedir (self_file a)
           \<and> map_of (self_info st') = (map_of (self_info a))
                 (''pydir'' \<mapsto> PyStr pydir, ''includedir'' \<mapsto> PyStr includedir)
           \<and> self_dir st' = self_dir a
           \<and> self_has_subdirs st' = self_has_subdirs a
           \<and> self_skip_subdirs st' = self_skip_subdirs a
           \<and> self_args st' = self_args a"
  using assms(1-3) unfolding assms(4)
  by (simp add: setup_files_def Let_def file_entries_def map_of_dict_set)

lemma setup_files_configured: "setup_files module_env prepared = Inr configured"
  by code_simp

text \<open>
  Claim C6. \<^verbatim>\<open>_setup_files\<close> computes \<^verbatim>\<open>includedir\<close> as \<^verbatim>\<open>include/gnuradio/<name>\<close>
  whenever \<^verbatim>\<open>is_component\<close> is true, whatever the version; otherwise as
  \<^verbatim>\<open>include/<name>\<close> when the version is \<^verbatim>\<open>'37'\<close>; otherwise as plain \<^verbatim>\<open>include\<close>.
\<close>

theorem setup_files_includedir:
  assumes "setup_files env st = Inr st'"
    and "map_of (self_info st) ''modname'' = Some (PyStr name)"
    and "map_of (self_info st) ''is_component'' = Some c"
  shows "map_of (self_info st') ''includedir'' =
           Some (PyStr (if truthy c then path_join ''include'' [''gnuradio'', name]
                        else if map_of (self_info st) ''version'' = Some (PyStr ''37'')
                             then path_join ''include'' [name]
                        else ''include''))"
proof -
  from assms(1) obtain a where a: "setup_swig_file env st = Inr a"
    by (cases "setup_swig_file env st") (simp_all add: setup_files_error_swig)
  then have info: "self_info a = self_info st"
    using setup_swig_file_Inr by blast
  with assms(2) have name: "info_str a ''modname'' = Inr name"
    by (simp add: info_str_PyStr)
  with a assms(1) obtain includedir where incl: "choose_includedir a name = Inr includedir"
    by (cases "choose_includedir a name") (simp_all add: setup_files_error_includedir)
  from setup_files_after_swig [OF a name incl refl] assms(1)
  have "map_of (self_info st') ''includedir'' = Some (PyStr includedir)"
    by auto
  moreover from incl assms(3) info
  have "includedir = (if truthy c then path_join ''include'' [''gnuradio'', name]
                      else if map_of (self_info st) ''version'' = Some (PyStr ''37'')
                           then path_join ''include'' [name]
                      else ''include'')"
    by (auto simp: choose_includedir_eq split: if_splits option.splits)
  ultimately show ?thesis by simp
qed

theorem setup_files_includedir_witness:
  "setup_files module_env prepared = Inr configured
   \<and> map_of (self_info prepared) ''modname'' = Some (PyStr ''foo'')
   \<and> map_of (self_info prepared) ''is_component'' = Some (PyBool False)
   \<and> map_of (self_info prepared) ''version'' = Some (PyStr ''37'')
   \<and> map_of (self_info configured) ''includedir'' = Some (PyStr ''include/foo'')"
proof -
  have name: "map_of (self_info prepared) ''modname'' = Some (PyStr ''foo'')"
    and comp: "map_of (self_info prepared) ''is_component'' = Some (PyBool False)"
    by (simp_all add: prepared_def)
  from setup_files_includedir [OF setup_files_configured name comp] setup_files_configured
  show ?thesis
    by (simp add: prepared_def path_join_def path_join2_def)
qed

text \<open>
  Claim C8, as amended. \<^verbatim>\<open>_setup_files\<close> is deterministic in what it reads: two runs in
  the same environment, on objects that agree on the module info (the entries
  \<^verbatim>\<open>modname\<close>, \<^verbatim>\<open>is_component\<close> and \<^verbatim>\<open>version\<close> of \<^verbatim>\<open>self._info\<close>, and
  \<^verbatim>\<open>self._dir\<close>), on the skip flag of swig and on the dictionary \<^verbatim>\<open>self._file\<close> as it
  is before the call, give the same file set (\<^verbatim>\<open>self._file\<close>, \<^verbatim>\<open>pydir\<close>,
  \<^verbatim>\<open>includedir\<close>) or the same exception. The two objects may differ in everything else.
\<close>

theorem setup_files_deterministic:
  assumes modname: "map_of (self_info st1) ''modname'' = map_of (self_info st2) ''modname''"
    and comp: "map_of (self_info st1) ''is_component'' = map_of (self_info st2) ''is_component''"
    and vers: "map_of (self_info st1) ''version'' = map_of (self_info st2) ''version''"
    and skip: "map_of (self_skip_subdirs st1) ''swig'' = map_of (self_skip_subdirs st2) ''swig''"
    and dirs: "self_dir st1 = self_dir st2"
    and files0: "self_file st1 = self_file st2"
  shows "map_sum id fileset (setup_files env st1) = map_sum id fileset (setup_files env st2)"
proof -
  have swig: "map_sum id self_file (setup_swig_file env st1)
              = map_sum id self_file (setup_swig_file env st2)"
    using modname skip dirs files0 by (rule setup_swig_file_cong)
  show ?thesis
  proof (cases "setup_swig_file env st1")
    case (Inl e)
    with swig have "setup_swig_file env st2 = Inl e"
      by (cases "setup_swig_file env st2") simp_all
    with Inl show ?thesis
      by (simp add: setup_files_error_swig)
  next
    case a1: (Inr a1)
    with swig obtain a2 where a2: "setup_swig_file env st2 = Inr a2"
      and files: "self_file a1 = self_file a2"
      by (cases "setup_swig_file env st2") simp_all
    have i1: "self_info a1 = self_info st1" and i2: "self_info a2 = self_info st2"
      using a1 a2 setup_swig_file_Inr by blast+
    have names: "info_str a1 ''modname'' = info_str a2 ''modname''"
      using modname i1 i2 by (intro info_str_cong) simp
    show ?thesis
    proof (cases "info_str a2 ''modname''")
      case (Inl e)
      with names a1 a2 show ?thesis
        by (simp add: setup_files_error_modname)
    next
      case name: (Inr name)
      have incl: "choose_includedir a1 name = choose_includedir a2 name"
        using comp vers i1 i2 by (intro choose_includedir_cong) simp_all
      show ?thesis
      proof (cases "choose_includedir a2 name")
        case (Inl e)
        with names name a1 a2 incl show ?thesis
          by (simp add: setup_files_error_includedir)
      next
        case incl_ok: (Inr includedir)
        from setup_files_after_swig [OF a1 _ _ refl, of name includedir]
             setup_files_after_swig [OF a2 name incl_ok refl]
             names name incl incl_ok files
        show ?thesis
          by (auto simp: fileset_def)
      qed
    qed
  qed
qed

theorem setup_files_deterministic_witness:
  "self_has_subdirs prepared \<noteq> self_has_subdirs prepared_variant
   \<and> self_skip_subdirs prepared \<noteq> self_skip_subdirs prepared_variant
   \<and> self_info prepared \<noteq> self_info prepared_variant
   \<and> map_sum id fileset (setup_files module_env prepared)
       = map_sum id fileset (setup_files module_env prepared_variant)
   \<and> map_sum id fileset (setup_files module_env prepared)
       = Inr (self_file configured, Some (PyStr ''python''), Some (PyStr ''include/foo''))"
proof -
  have "map_sum id fileset (setup_files module_env prepared)
        = map_sum id fileset (setup_files module_env prepared_variant)"
    by (rule setup_files_deterministic) (simp_all add: prepared_def prepared_variant_def)
  then show ?thesis
    by (simp add: setup_files_configured fileset_def)
       (simp add: prepared_def prepared_variant_def configured_def)
qed

text \<open>
  The claim C8 as it was stated fails: the module info, the presence dictionary, the skip
  flags and the environment do not determine the file set. With swig skipped
  \<^verbatim>\<open>_setup_files\<close> leaves the entry \<^verbatim>\<open>swig\<close> of \<^verbatim>\<open>self._file\<close> as it finds it, so an
  object on which it ran before keeps the old entry and a fresh object has none.
\<close>

theorem setup_files_stale_swig_counterexample:
  "self_info swig_skipped = self_info swig_skipped_again
   \<and> self_has_subdirs swig_skipped = self_has_subdirs swig_skipped_again
   \<and> self_skip_subdirs swig_skipped = self_skip_subdirs swig_skipped_again
   \<and> self_dir swig_skipped = self_dir swig_skipped_again
   \<and> self_args swig_skipped = self_args swig_skipped_again
   \<and> map_sum id fileset (setup_files module_env swig_skipped)
       = Inr ([(''qalib'', ''lib/qa_foo.cc''), (''pyinit'', ''python/__init__.py''),
               (''cmlib'', ''lib/CMakeLists.txt''), (''cmgrc'', ''grc/CMakeLists.txt''),
               (''cmpython'', ''python/CMakeLists.txt''),
               (''cminclude'', ''include/foo/CMakeLists.txt''),
               (''cmswig'', ''swig/CMakeLists.txt''),
               (''cmfind'', ''cmake/Modules/rfnoc_exampleConfig.cmake'')],
              Some (PyStr ''python''), Some (PyStr ''include/foo''))
   \<and> map_sum id fileset (setup_files module_env swig_skipped_again)
       = Inr ([(''swig'', ''swig/foo_swig.i''), (''qalib'', ''lib/qa_foo.cc''),
               (''pyinit'', ''python/__init__.py''),
               (''cmlib'', ''lib/CMakeLists.txt''), (''cmgrc'', ''grc/CMakeLists.txt''),
               (''cmpython'', ''python/CMakeLists.txt''),
               (''cminclude'', ''include/foo/CMakeLists.txt''),
               (''cmswig'', ''swig/CMakeLists.txt''),
               (''cmfind'', ''cmake/Modules/rfnoc_exampleConfig.cmake'')],
              Some (PyStr ''python''), Some (PyStr ''include/foo''))"
  by code_simp

text \<open>
  Claim C2, as amended. Of the entries of \<^verbatim>\<open>self._file\<close> only the main swig interface
  file is tied to its stage: \<^verbatim>\<open>_setup_files\<close> writes the entry \<^verbatim>\<open>swig\<close> when swig is
  not skipped and leaves it as it was (absent, if it was absent) when swig is skipped.
  The entries \<^verbatim>\<open>qalib\<close>, \<^verbatim>\<open>pyinit\<close>, \<^verbatim>\<open>cmlib\<close>, \<^verbatim>\<open>cmgrc\<close>, \<^verbatim>\<open>cmpython\<close>,
  \<^verbatim>\<open>cminclude\<close>, \<^verbatim>\<open>cmswig\<close> and \<^verbatim>\<open>cmfind\<close> are populated by every run that
  returns, whatever the skip flags are.
\<close>

theorem setup_files_entries:
  assumes "setup_files env st = Inr st'"
  shows "(map_of (self_skip_subdirs st) ''swig'' = Some True
            \<and> map_of (self_file st') ''swig'' = map_of (self_file st) ''swig''
          \<or> map_of (self_skip_subdirs st) ''swig'' = Some False
            \<and> (\<exists>fname. get_mainswigfile env st = Inr (Some fname)
                  \<and> map_of (self_file st') ''swig'' = Some (path_join ''swig'' [fname])))
         \<and> (\<exists>name pydir includedir.
               map_of (self_info st) ''modname'' = Some (PyStr name)
             \<and> map_of (self_info st') ''pydir'' = Some (PyStr pydir)
             \<and> map_of (self_info st') ''includedir'' = Some (PyStr includedir)
             \<and> map_of (self_file st') ''qalib'' = Some (path_join ''lib'' [''qa_'' @ name @ ''.cc''])
             \<and> map_of (self_file st') ''pyinit'' = Some (path_join pydir [''__init__.py''])
             \<and> map_of (self_file st') ''cmlib'' = Some (path_join ''lib'' [''CMakeLists.txt''])
             \<and> map_of (self_file st') ''cmgrc'' = Some (path_join ''grc'' [''CMakeLists.txt''])
             \<and> map_of (self_file st') ''cmpython'' = Some (path_join pydir [''CMakeLists.txt''])
             \<and> map_of (self_file st') ''cminclude''
                 = Some (path_join includedir [''CMakeLists.txt''])
             \<and> map_of (self_file st') ''cmswig'' = Some (path_join ''swig'' [''CMakeLists.txt''])
             \<and> map_of (self_file st') ''cmfind''
                 = Some (path_join ''cmake'' [''Modules'', ''rfnoc_exampleConfig.cmake'']))"
proof -
  from assms obtain a where a: "setup_swig_file env st = Inr a"
    by (cases "setup_swig_file env st") (simp_all add: setup_files_error_swig)
  with assms obtain name where name: "info_str a ''modname'' = Inr name"
    by (cases "info_str a ''modname''") (simp_all add: setup_files_error_modname)
  with a assms obtain includedir where incl: "choose_includedir a name = Inr includedir"
    by (cases "choose_includedir a name") (simp_all add: setup_files_error_includedir)
  from setup_files_after_swig [OF a name incl refl] assms
  have files: "self_file st' = file_entries name
                  (if isdir env (path_join ''python'' [name])
                   then path_join ''python'' [name] else ''python'') includedir (self_file a)"
    and infos: "map_of (self_info st') = (map_of (self_info a))
                  (''pydir'' \<mapsto> PyStr (if isdir env (path_join ''python'' [name])
                                       then path_join ''python'' [name] else ''python''),
                   ''includedir'' \<mapsto> PyStr includedir)"
    by simp_all
  have swig: "map_of (self_file st') ''swig'' = map_of (self_file a) ''swig''"
    by (simp add: files file_entries_def map_of_dict_set)
  have first: "map_of (self_skip_subdirs st) ''swig'' = Some True
            \<and> map_of (self_file st') ''swig'' = map_of (self_file st) ''swig''
          \<or> map_of (self_skip_subdirs st) ''swig'' = Some False
            \<and> (\<exists>fname. get_mainswigfile env st = Inr (Some fname)
                  \<and> map_of (self_file st') ''swig'' = Some (path_join ''swig'' [fname]))"
    using setup_swig_file_Inr [OF a] swig by (auto simp: map_of_dict_set)
  have "self_info a = self_info st"
    using setup_swig_file_Inr [OF a] by simp
  with name have modname: "map_of (self_info st) ''modname'' = Some (PyStr name)"
    by (simp add: info_str_eq_Inr)
  have second: "\<exists>name pydir includedir.
               map_of (self_info st) ''modname'' = Some (PyStr name)
             \<and> map_of (self_info st') ''pydir'' = Some (PyStr pydir)
             \<and> map_of (self_info st') ''includedir'' = Some (PyStr includedir)
             \<and> map_of (self_file st') ''qalib'' = Some (path_join ''lib'' [''qa_'' @ name @ ''.cc''])
             \<and> map_of (self_file st') ''pyinit'' = Some (path_join pydir [''__init__.py''])
             \<and> map_of (self_file st') ''cmlib'' = Some (path_join ''lib'' [''CMakeLists.txt''])
             \<and> map_of (self_file st') ''cmgrc'' = Some (path_join ''grc'' [''CMakeLists.txt''])
             \<and> map_of (self_file st') ''cmpython'' = Some (path_join pydir [''CMakeLists.txt''])
             \<and> map_of (self_file st') ''cminclude''
                 = Some (path_join includedir [''CMakeLists.txt''])
             \<and> map_of (self_file st') ''cmswig'' = Some (path_join ''swig'' [''CMakeLists.txt''])
             \<and> map_of (self_file st') ''cmfind''
                 = Some (path_join ''cmake'' [''Modules'', ''rfnoc_exampleConfig.cmake''])"
    apply (rule exI [of _ name])
    apply (rule exI [of _ "if isdir env (path_join ''python'' [name])
                   then path_join ''python'' [name] else ''python''"])
    apply (rule exI [of _ includedir])
    apply (simp only: modname infos files file_entries_def map_of_dict_set)
    apply simp
    done
  from first second show ?thesis by (rule conjI)
qed

theorem setup_files_entries_witness:
  "setup_files module_env prepared = Inr configured
   \<and> map_of (self_skip_subdirs prepared) ''swig'' = Some False
   \<and> map_of (self_skip_subdirs prepared) ''lib'' = Some True
   \<and> map_of (self_file configured) ''swig'' = Some ''swig/foo_swig.i''
   \<and> map_of (self_file configured) ''qalib'' = Some ''lib/qa_foo.cc''
   \<and> map_of (self_file configured) ''cmlib'' = Some ''lib/CMakeLists.txt''"
  using setup_files_entries [OF setup_files_configured] setup_files_configured
  by (simp add: prepared_def configured_def)

text \<open>
  The claim C2 as it was stated fails: with the stages lib, python, swig and grc all
  skipped, \<^verbatim>\<open>_setup_files\<close> still enters the qa source and the \<^verbatim>\<open>CMakeLists.txt\<close> of
  lib, the \<^verbatim>\<open>__init__.py\<close> and the \<^verbatim>\<open>CMakeLists.txt\<close> of python, and the
  \<^verbatim>\<open>CMakeLists.txt\<close> of grc and of swig.
\<close>

theorem setup_files_all_skipped_counterexample:
  "map_of (self_skip_subdirs all_skipped) ''lib'' = Some True
   \<and> map_of (self_skip_subdirs all_skipped) ''python'' = Some True
   \<and> map_of (self_skip_subdirs all_skipped) ''swig'' = Some True
   \<and> map_of (self_skip_subdirs all_skipped) ''grc'' = Some True
   \<and> map_sum id self_file (setup_files bare_env all_skipped)
       = Inr [(''qalib'', ''lib/qa_foo.cc''), (''pyinit'', ''python/__init__.py''),
              (''cmlib'', ''lib/CMakeLists.txt''), (''cmgrc'', ''grc/CMakeLists.txt''),
              (''cmpython'', ''python/CMakeLists.txt''),
              (''cminclude'', ''include/CMakeLists.txt''),
              (''cmswig'', ''swig/CMakeLists.txt''),
              (''cmfind'', ''cmake/Modules/rfnoc_exampleConfig.cmake'')]"
  by code_simp

section \<open>The skipped stages\<close>

lemma skip_unless_present_Inr:
  assumes "skip_unless_present flag h s st = Inr st'"
  shows "self_dir st' = self_dir st \<and> self_info st' = self_info st
         \<and> self_has_subdirs st' = self_has_subdirs st
         \<and> self_file st' = self_file st \<and> self_args st' = self_args st
         \<and> (map_of (self_skip_subdirs st') = map_of (self_skip_subdirs st)
             \<or> map_of (self_skip_subdirs st') = (map_of (self_skip_subdirs st))(s \<mapsto> True))"
proof (cases flag)
  case True
  with assms show ?thesis
    by (auto simp: skip_unless_present_def map_of_dict_set)
next
  case False
  with assms obtain present where "dict_get (self_has_subdirs st) h = Inr present"
    by (cases "dict_get (self_has_subdirs st) h") (simp_all add: skip_unless_present_def)
  with False assms show ?thesis
    by (cases present) (auto simp: skip_unless_present_def map_of_dict_set)
qed

lemma skip_unless_present_unskipped:
  assumes "skip_unless_present flag h s st = Inr st'"
    and "map_of (self_skip_subdirs st') k = Some False"
  shows "map_of (self_skip_subdirs st) k = Some False"
  using skip_unless_present_Inr [OF assms(1)] assms(2)
  by (auto split: if_splits)

lemma skip_swig_stage_Inr:
  assumes "skip_swig_stage env flag st = Inr st'"
  shows "self_dir st' = self_dir st \<and> self_info st' = self_info st
         \<and> self_has_subdirs st' = self_has_subdirs st
         \<and> self_file st' = self_file st \<and> self_args st' = self_args st
         \<and> (map_of (self_skip_subdirs st') ''swig'' = Some True
             \<or> (\<exists>fname. get_mainswigfile env st = Inr (Some fname))
                \<and> map_of (self_skip_subdirs st') = map_of (self_skip_subdirs st))"
proof (cases flag)
  case True
  with assms show ?thesis
    by (auto simp: skip_swig_stage_def map_of_dict_set)
next
  case False
  with assms obtain mainswig where m: "get_mainswigfile env st = Inr mainswig"
    by (cases "get_mainswigfile env st") (simp_all add: skip_swig_stage_def)
  show ?thesis
  proof (cases mainswig)
    case None
    with False m assms show ?thesis
      by (auto simp: skip_swig_stage_def map_of_dict_set)
  next
    case (Some fname)
    with False m assms have "skip_unless_present False ''swig'' ''swig'' st = Inr st'"
      by (simp add: skip_swig_stage_def)
    from skip_unless_present_Inr [OF this] m Some show ?thesis
      by auto
  qed
qed

lemma setup_skip_subdirs_swig:
  assumes "setup_skip_subdirs env a st = Inr st'"
    and "map_of (self_skip_subdirs st') ''swig'' = Some False"
  shows "\<exists>fname. get_mainswigfile env st' = Inr (Some fname)"
proof -
  from assms(1) obtain st1 st2 st3 st4 st5 where
    s1: "skip_unless_present (skip_lib a) ''lib'' ''lib'' st = Inr st1" and
    s2: "skip_unless_present (skip_python a) ''python'' ''python'' st1 = Inr st2" and
    s3: "skip_swig_stage env (skip_swig a) st2 = Inr st3" and
    s4: "skip_unless_present (skip_grc a) ''grc'' ''grc'' st3 = Inr st4" and
    s5: "skip_unless_present (skip_grc a) ''examples'' ''examples'' st4 = Inr st5" and
    s6: "skip_unless_present (skip_grc a) ''grc'' ''rfnoc'' st5 = Inr st'"
    unfolding setup_skip_subdirs_def thenE_eq_Inr by blast
  have "map_of (self_skip_subdirs st5) ''swig'' = Some False"
    using s6 assms(2) by (rule skip_unless_present_unskipped)
  with s5 have "map_of (self_skip_subdirs st4) ''swig'' = Some False"
    by (rule skip_unless_present_unskipped)
  with s4 have "map_of (self_skip_subdirs st3) ''swig'' = Some False"
    by (rule skip_unless_present_unskipped)
  with skip_swig_stage_Inr [OF s3] obtain fname
    where "get_mainswigfile env st2 = Inr (Some fname)"
    by auto
  moreover have "get_mainswigfile env st' = get_mainswigfile env st2"
    using skip_unless_present_Inr [OF s4] skip_unless_present_Inr [OF s5]
      skip_unless_present_Inr [OF s6] skip_swig_stage_Inr [OF s3]
    by (intro get_mainswigfile_cong) simp_all
  ultimately show ?thesis by simp
qed

lemma setup_until_files_Inr:
  assumes "setup_until_files env a st0 = Inr st"
  shows "\<exists>st5 st6. setup_skip_subdirs env a st5 = Inr st6
           \<and> st = set_info ''blockname''
                    (case opt_block_name a of Some b \<Rightarrow> PyStr b | None \<Rightarrow> PyNone) st6"
  using assms
  by (auto simp: setup_until_files_def Let_def thenE_eq_Inr split: if_splits prod.splits)

lemma setup_until_files_prepared: "setup_until_files module_env default_args init = Inr prepared"
  by code_simp

lemma setup_until_files_all_skipped: "setup_until_files bare_env default_args init = Inr all_skipped"
  by code_simp

text \<open>
  Claim C9. Whenever the swig stage is not skipped at the point where \<^verbatim>\<open>setup\<close> calls
  \<^verbatim>\<open>_setup_files\<close> (in the same environment as for the skip decision),
  \<^verbatim>\<open>_get_mainswigfile\<close> returns a file name and not \<^verbatim>\<open>None\<close>, so the join that builds
  the swig entry never receives \<^verbatim>\<open>None\<close>: the first statement of \<^verbatim>\<open>_setup_files\<close>
  returns with the entry written.
\<close>

theorem swig_unskipped_mainswigfile:
  assumes "setup_until_files env a st0 = Inr st"
    and "map_of (self_skip_subdirs st) ''swig'' = Some False"
  shows "\<exists>fname. get_mainswigfile env st = Inr (Some fname)
           \<and> setup_swig_file env st = Inr (set_file ''swig'' (path_join ''swig'' [fname]) st)"
proof -
  from setup_until_files_Inr [OF assms(1)] obtain st5 st6 where
    s: "setup_skip_subdirs env a st5 = Inr st6" and
    st: "st = set_info ''blockname''
               (case opt_block_name a of Some b \<Rightarrow> PyStr b | None \<Rightarrow> PyNone) st6"
    by blast
  from st assms(2) have "map_of (self_skip_subdirs st6) ''swig'' = Some False"
    by simp
  with s obtain fname where "get_mainswigfile env st6 = Inr (Some fname)"
    using setup_skip_subdirs_swig by blast
  moreover have "get_mainswigfile env st = get_mainswigfile env st6"
    unfolding st by (rule get_mainswigfile_cong) (simp_all add: map_of_dict_set)
  ultimately have m: "get_mainswigfile env st = Inr (Some fname)"
    by simp
  with assms(2)
  have "setup_swig_file env st = Inr (set_file ''swig'' (path_join ''swig'' [fname]) st)"
    by (simp add: setup_swig_file_def dict_get_def)
  with m show ?thesis by blast
qed

theorem swig_unskipped_mainswigfile_witness:
  "setup_until_files module_env default_args init = Inr prepared
   \<and> map_of (self_skip_subdirs prepared) ''swig'' = Some False
   \<and> (\<exists>fname. get_mainswigfile module_env prepared = Inr (Some fname)
         \<and> setup_swig_file module_env prepared
             = Inr (set_file ''swig'' (path_join ''swig'' [fname]) prepared))"
proof -
  have unskipped: "map_of (self_skip_subdirs prepared) ''swig'' = Some False"
    by (simp add: prepared_def)
  from swig_unskipped_mainswigfile [OF setup_until_files_prepared unskipped]
    setup_until_files_prepared unskipped
  show ?thesis by simp
qed

text \<open>
  Claim C3. Every stage is skipped exactly when its own skip flag is set, or its own
  subdirectory is absent, or (for swig) no main interface file is found. The code does
  this for lib, python, swig and grc, but the statements for examples and rfnoc test
  \<^verbatim>\<open>args.skip_grc\<close>, and the one for rfnoc tests the presence of grc: in the module
  \<open>module_env\<close>, called with \<^verbatim>\<open>--skip-examples --skip-rfnoc\<close>, both stages stay
  unskipped (the last entry is the unknown directory docs).
\<close>

theorem setup_ignores_skip_examples_and_skip_rfnoc:
  "map_sum id self_skip_subdirs
     (modtool_setup module_env (default_args\<lparr> skip_examples := True, skip_rfnoc := True \<rparr>) init)
   = Inr [(''lib'', True), (''include'', False), (''python'', True), (''swig'', False),
          (''grc'', False), (''examples'', False), (''rfnoc'', False), (''docs'', True)]"
  by code_simp

section \<open>The directory check\<close>

lemma check_entries_find_package:
  assumes rd: "read_text env ''CMakeLists.txt'' = Some body"
    and fp: "re_search ''find_package(Gnuradio'' body"
  shows "\<exists>st'. check_entries env files has_makefile st
                 = Inr (has_makefile
                        \<or> ''CMakeLists.txt'' \<in> set files \<and> isfile env ''CMakeLists.txt'', st')
           \<and> map_of (self_info st') ''is_component'' = map_of (self_info st) ''is_component''
           \<and> map_of (self_info st') ''version''
               = (if ''CMakeLists.txt'' \<in> set files \<and> isfile env ''CMakeLists.txt''
                  then Some (PyStr ''36'') else map_of (self_info st) ''version'')
           \<and> dict_keys (self_has_subdirs st') = dict_keys (self_has_subdirs st)"
proof (induction files arbitrary: has_makefile st)
  case Nil
  show ?case by simp
next
  case (Cons f files)
  consider (cmake) "isfile env f \<and> f = ''CMakeLists.txt''"
    | (known) "\<not> (isfile env f \<and> f = ''CMakeLists.txt'')" "isdir env f"
              "f \<in> set (dict_keys (self_has_subdirs st))"
    | (unknown) "\<not> (isfile env f \<and> f = ''CMakeLists.txt'')" "isdir env f"
              "f \<notin> set (dict_keys (self_has_subdirs st))"
    | (other) "\<not> (isfile env f \<and> f = ''CMakeLists.txt'')" "\<not> isdir env f"
    by blast
  then show ?case
  proof cases
    case cmake
    from Cons.IH [of True "set_info ''version'' (PyStr ''36'') st"] cmake rd fp
    show ?thesis by (auto simp: map_of_dict_set)
  next
    case known
    from Cons.IH [of has_makefile "set_has f True st"] known
    show ?thesis by (auto simp: dict_keys_set_existing)
  next
    case unknown
    from Cons.IH [of has_makefile "set_skip f True st"] unknown
    show ?thesis by auto
  next
    case other
    from Cons.IH [of has_makefile st] other
    show ?thesis by auto
  qed
qed

lemma check_entries_present:
  assumes "check_entries env files has_makefile st = Inr (found, st')"
    and "map_of (self_has_subdirs st) g = Some True
         \<or> g \<in> set files \<and> isdir env g \<and> g \<in> set (dict_keys (self_has_subdirs st))
            \<and> g \<noteq> ''CMakeLists.txt''"
  shows "map_of (self_has_subdirs st') g = Some True"
  using assms
proof (induction files arbitrary: has_makefile st)
  case Nil
  then show ?case by simp
next
  case (Cons f files)
  consider (cmake) "isfile env f" "f = ''CMakeLists.txt''"
    | (known) "\<not> (isfile env f \<and> f = ''CMakeLists.txt'')" "isdir env f"
              "f \<in> set (dict_keys (self_has_subdirs st))"
    | (unknown) "\<not> (isfile env f \<and> f = ''CMakeLists.txt'')" "isdir env f"
              "f \<notin> set (dict_keys (self_has_subdirs st))"
    | (other) "\<not> (isfile env f \<and> f = ''CMakeLists.txt'')" "\<not> isdir env f"
    by blast
  then show ?case
  proof cases
    case cmake
    show ?thesis
    proof (cases "read_text env f")
      case None
      with cmake Cons.prems show ?thesis by simp
    next
      case (Some body)
      consider "re_search ''find_package(Gnuradio'' body"
        | "\<not> re_search ''find_package(Gnuradio'' body"
          "re_search ''GR_REGISTER_COMPONENT'' body"
        | "\<not> re_search ''find_package(Gnuradio'' body"
          "\<not> re_search ''GR_REGISTER_COMPONENT'' body"
        by blast
      then show ?thesis
      proof cases
        case 1
        with cmake Some Cons.prems
        show ?thesis by (intro Cons.IH [of True "set_info ''version'' (PyStr ''36'') st"]) auto
      next
        case 2
        with cmake Some Cons.prems
        show ?thesis
          by (intro Cons.IH [of True "set_info ''is_component'' (PyBool True)
                                        (set_info ''version'' (PyStr ''36'') st)"]) auto
      next
        case 3
        with cmake Some Cons.prems
        show ?thesis by (intro Cons.IH [of has_makefile st]) auto
      qed
    qed
  next
    case known
    with Cons.prems show ?thesis
      by (intro Cons.IH [of has_makefile "set_has f True st"])
         (auto simp: dict_keys_set_existing map_of_dict_set)
  next
    case unknown
    with Cons.prems show ?thesis
      by (intro Cons.IH [of has_makefile "set_skip f True st"]) auto
  next
    case other
    with Cons.prems show ?thesis
      by (intro Cons.IH [of has_makefile st]) auto
  qed
qed

text \<open>
  Claim C7. For every root directory that contains a regular file named exactly
  \<^verbatim>\<open>CMakeLists.txt\<close> whose text contains \<^verbatim>\<open>find_package(Gnuradio\<close>, and at least one
  known subdirectory, the directory check succeeds with version \<^verbatim>\<open>'36'\<close> and
  \<^verbatim>\<open>is_component\<close> false (and records that subdirectory as present). The object is any
  one whose presence dictionary has the keys that \<^verbatim>\<open>__init__\<close> gives it.
\<close>

theorem check_directory_find_package:
  assumes "listdir env d = Some files" and "chdir env d"
    and "''CMakeLists.txt'' \<in> set files" and "isfile env ''CMakeLists.txt''"
    and "read_text env ''CMakeLists.txt'' = Some body"
    and "re_search ''find_package(Gnuradio'' body"
    and "f \<in> set files" and "isdir env f" and "f \<in> set subdirs"
    and "dict_keys (self_has_subdirs st) = subdirs"
  shows "\<exists>st'. check_directory env d st = Inr (True, st')
           \<and> map_of (self_info st') ''version'' = Some (PyStr ''36'')
           \<and> map_of (self_info st') ''is_component'' = Some (PyBool False)
           \<and> map_of (self_has_subdirs st') f = Some True"
proof -
  let ?st0 = "set_info ''is_component'' (PyBool False) st"
  from check_entries_find_package [OF assms(5,6), of files False ?st0] assms(3,4)
  obtain st' where
    run: "check_entries env files False ?st0 = Inr (True, st')" and
    comp: "map_of (self_info st') ''is_component'' = Some (PyBool False)" and
    vers: "map_of (self_info st') ''version'' = Some (PyStr ''36'')" and
    keys: "dict_keys (self_has_subdirs st') = dict_keys (self_has_subdirs st)"
    by (auto simp: map_of_dict_set)
  from assms(9) have "f \<noteq> ''CMakeLists.txt''"
    by (auto simp: subdirs_def)
  with assms(7-10) have present: "map_of (self_has_subdirs st') f = Some True"
    by (intro check_entries_present [OF run]) simp
  from keys assms(10) have "dict_values (self_has_subdirs st') \<noteq> []"
    by (auto simp: dict_keys_def dict_values_def subdirs_def)
  with run assms(1,2) have "check_directory env d st = Inr (True, st')"
    by (simp add: check_directory_def)
  with comp vers present show ?thesis by blast
qed

theorem check_directory_find_package_witness:
  "listdir module_env ''.''
     = Some [''CMakeLists.txt'', ''grc'', ''examples'', ''rfnoc'', ''swig'', ''docs'', ''include'']
   \<and> chdir module_env ''.''
   \<and> isfile module_env ''CMakeLists.txt''
   \<and> read_text module_env ''CMakeLists.txt'' = Some ''find_package(Gnuradio)''
   \<and> re_search ''find_package(Gnuradio'' ''find_package(Gnuradio)''
   \<and> isdir module_env ''grc''
   \<and> ''grc'' \<in> set subdirs
   \<and> dict_keys (self_has_subdirs init) = subdirs
   \<and> (\<exists>st'. check_directory module_env ''.'' init = Inr (True, st')
         \<and> map_of (self_info st') ''version'' = Some (PyStr ''36'')
         \<and> map_of (self_info st') ''is_component'' = Some (PyBool False)
         \<and> map_of (self_has_subdirs st') ''grc'' = Some True)"
proof -
  have h1: "listdir module_env ''.''
     = Some [''CMakeLists.txt'', ''grc'', ''examples'', ''rfnoc'', ''swig'', ''docs'', ''include'']"
    and h2: "chdir module_env ''.''"
    and h4: "isfile module_env ''CMakeLists.txt''"
    and h5: "read_text module_env ''CMakeLists.txt'' = Some ''find_package(Gnuradio)''"
    and h8: "isdir module_env ''grc''"
    by (simp_all add: module_env_def)
  have h3: "''CMakeLists.txt''
      \<in> set [''CMakeLists.txt'', ''grc'', ''examples'', ''rfnoc'', ''swig'', ''docs'', ''include'']"
    and h7: "''grc''
      \<in> set [''CMakeLists.txt'', ''grc'', ''examples'', ''rfnoc'', ''swig'', ''docs'', ''include'']"
    by simp_all
  have h6: "re_search ''find_package(Gnuradio'' ''find_package(Gnuradio)''"
    by code_simp
  have h9: "''grc'' \<in> set subdirs"
    by (simp add: subdirs_def)
  have h10: "dict_keys (self_has_subdirs init) = subdirs"
    by (simp add: init_def dict_keys_def subdirs_def)
  from check_directory_find_package [OF h1 h2 h3 h4 h5 h6 h7 h8 h9 h10]
    h1 h2 h4 h5 h6 h8 h9 h10
  show ?thesis by simp
qed

text \<open>
  Claim C1. The directory check succeeds exactly when a build marker was found and at
  least one known subdirectory is present; a root with a marker-bearing
  \<^verbatim>\<open>CMakeLists.txt\<close> and no known subdirectory must fail. The code returns
  \<^verbatim>\<open>bool(has_makefile and (self._has_subdirs.values()))\<close>, and the collection of values
  is never empty: in \<open>bare_env\<close>, where nothing but \<^verbatim>\<open>CMakeLists.txt\<close> exists, the
  check returns \<^verbatim>\<open>True\<close> and \<^verbatim>\<open>setup\<close> runs to its end with every known subdirectory
  marked absent.
\<close>

theorem check_directory_accepts_no_subdirs:
  "check_directory bare_env ''.'' init
     = Inr (True, set_info ''version'' (PyStr ''36'')
                    (set_info ''is_component'' (PyBool False) init))
   \<and> map_sum id self_has_subdirs (modtool_setup bare_env default_args init)
     = Inr [(''lib'', False), (''include'', False), (''python'', False), (''swig'', False),
            (''grc'', False), (''examples'', False), (''rfnoc'', False)]"
  by code_simp

end
